theory Spec2Isabelle
  imports Main "HOL-Library.Sublist" "HOL-Library.AList"
begin

section \<open>The world the script runs in\<close>

text \<open>
  \<^verbatim>\<open>containers.py\<close> is a command-line script that sequences calls to a container
  runtime, to subprocesses and to the local filesystem. The model threads an explicit
  world through every function: the configuration read at import time, the state of the
  runtime and of the filesystem, and the trace of everything the script did, in order.

  What lies behind the external collaborators is kept abstract:
  \<^item> \<open>exec_result\<close> gives, for a container and a command line, the exit code and the
    output bytes that \<^verbatim>\<open>exec_run\<close> returns;
  \<^item> a subprocess is recorded in the trace and nothing more;
  \<^item> the filesystem is a list of regular files (path and contents) and a list of
    directories; every proper ancestor of a listed path is a directory too. Paths are
    taken as they are spelled. Opening a file for writing fails for the empty name, for
    a name that is a directory and in a directory that does not exist; removing fails
    on a directory and on a missing file. Permissions, devices and the limits of the
    operating system are not modelled;
  \<^item> the runtime answers every request (the script catches \<^verbatim>\<open>NotFound\<close> only).
  The exceptions of the model are the ones that the script's own logic and the state of
  the filesystem can provoke.

  The model starts where \<^verbatim>\<open>main\<close> is called: the module has found \<^verbatim>\<open>.env\<close> and
  \<^verbatim>\<open>compose.yaml\<close>, has read the services and the database credentials from them, and
  has connected to the runtime. The modification time that \<^verbatim>\<open>create_archive\<close> stamps on
  the archive entry is left out.
\<close>

datatype exn =
    AttributeError | IndexError | FileNotFoundError | IsADirectoryError | NotADirectoryError

type_synonym archive = "string \<times> nat \<times> string"

datatype event =
    Print string
  | PrintCR string
  | ContainersGet string
  | ContainerStop string
  | ContainerStart string
  | ExecRun string string
  | PutArchive string string archive
  | Subprocess string
  | FileCreate string
  | FileWrite string string
  | FileRemove string

record world =
  services :: "string list"
  DB_USER :: "string option"
  DB_NAME :: "string option"
  containers :: "string \<rightharpoonup> string"
  exec_result :: "string \<Rightarrow> string \<Rightarrow> int \<times> string"
  files :: "(string \<times> string) list"
  dirs :: "string list"
  trace :: "event list"

text \<open>
  What \<^verbatim>\<open>get_container\<close> returns: \<^verbatim>\<open>False\<close> for a name the compose file does not
  declare, \<^verbatim>\<open>None\<close> when the runtime has no such container, otherwise a container
  object, which carries its name and the status it had when it was looked up.
\<close>

datatype container_ref = NotDeclared | NotFound | Handle string string

type_synonym 'a prog = "world \<Rightarrow> (exn + 'a) \<times> world"

definition ret :: "'a \<Rightarrow> 'a prog" where
  "ret x w = (Inr x, w)"

definition raise :: "exn \<Rightarrow> 'a prog" where
  "raise e w = (Inl e, w)"

definition bnd :: "'a prog \<Rightarrow> ('a \<Rightarrow> 'b prog) \<Rightarrow> 'b prog" where
  "bnd m f w = (case m w of (Inl e, w') \<Rightarrow> (Inl e, w') | (Inr x, w') \<Rightarrow> f x w')"

definition seq :: "'a prog \<Rightarrow> 'b prog \<Rightarrow> 'b prog" where
  "seq m k = bnd m (\<lambda>_. k)"

definition emit :: "event \<Rightarrow> unit prog" where
  "emit ev w = (Inr (), w\<lparr>trace := trace w @ [ev]\<rparr>)"

text \<open>\<^verbatim>\<open>print(s)\<close> and \<^verbatim>\<open>print(s, end='\r')\<close>.\<close>

definition print :: "string \<Rightarrow> unit prog" where
  "print s = emit (Print s)"

definition print_cr :: "string \<Rightarrow> unit prog" where
  "print_cr s = emit (PrintCR s)"

text \<open>How an f-string renders a value of \<^verbatim>\<open>os.getenv\<close>, which is \<^verbatim>\<open>None\<close> when unset.\<close>

definition fmt :: "string option \<Rightarrow> string" where
  "fmt v = (case v of None \<Rightarrow> ''None'' | Some s \<Rightarrow> s)"

text \<open>\<^verbatim>\<open>sys.argv[i]\<close>.\<close>

definition argv_at :: "string list \<Rightarrow> nat \<Rightarrow> string prog" where
  "argv_at argv i = (if i < length argv then ret (argv ! i) else raise IndexError)"

text \<open>\<^verbatim>\<open>' '.join(xs)\<close>.\<close>

fun join_space :: "string list \<Rightarrow> string" where
  "join_space [] = []"
| "join_space [x] = x"
| "join_space (x # y # ys) = x @ '' '' @ join_space (y # ys)"

subsection \<open>Strings and paths\<close>

fun starts_with :: "string \<Rightarrow> string \<Rightarrow> bool" where
  "starts_with [] s = True"
| "starts_with (p # ps) [] = False"
| "starts_with (p # ps) (c # cs) = (p = c \<and> starts_with ps cs)"

definition ends_with :: "string \<Rightarrow> string \<Rightarrow> bool" where
  "ends_with suf s = starts_with (rev suf) (rev s)"

text \<open>\<^verbatim>\<open>sub in s\<close> on strings.\<close>

fun str_in :: "string \<Rightarrow> string \<Rightarrow> bool" where
  "str_in sub [] = (sub = [])"
| "str_in sub (c # cs) = (starts_with sub (c # cs) \<or> str_in sub cs)"

fun split_path :: "string \<Rightarrow> string list" where
  "split_path [] = [[]]"
| "split_path (c # cs) =
     (if c = CHR ''/'' then [] # split_path cs
      else (case split_path cs of [] \<Rightarrow> [[c]] | x # xs \<Rightarrow> (c # x) # xs))"

fun join_slash :: "string list \<Rightarrow> string" where
  "join_slash [] = []"
| "join_slash [x] = x"
| "join_slash (x # y # ys) = x @ ''/'' @ join_slash (y # ys)"

text \<open>The path without its last component, when it has more than one.\<close>

definition parent_dir :: "string \<Rightarrow> string option" where
  "parent_dir p =
     (if CHR ''/'' \<in> set p
      then Some (rev (tl (dropWhile (\<lambda>c. c \<noteq> CHR ''/'') (rev p))))
      else None)"

definition basename :: "string \<Rightarrow> string" where
  "basename p = last (split_path p)"

text \<open>
  \<^verbatim>\<open>glob.glob("backend/*/migrations/*" + ext)\<close> matches the entries two levels below
  \<^verbatim>\<open>backend\<close>, inside a directory \<^verbatim>\<open>migrations\<close>, whose name ends with \<open>ext\<close>.
  A \<^verbatim>\<open>*\<close> matches within one path component and never a name that starts with a dot.
\<close>

definition matches_migration :: "string \<Rightarrow> string \<Rightarrow> bool" where
  "matches_migration ext p =
     (case split_path p of
        [b, app, m, f] \<Rightarrow>
          b = ''backend'' \<and> app \<noteq> [] \<and> \<not> starts_with ''.'' app \<and> m = ''migrations''
          \<and> ends_with ext f \<and> \<not> starts_with ''.'' f
      | _ \<Rightarrow> False)"

subsection \<open>The filesystem and the runtime\<close>

text \<open>The paths the world lists: its regular files and its directories.\<close>

definition entries :: "world \<Rightarrow> string list" where
  "entries w = map fst (files w) @ dirs w"

text \<open>\<^verbatim>\<open>os.path.isfile\<close>.\<close>

definition isfile :: "world \<Rightarrow> string \<Rightarrow> bool" where
  "isfile w p = (map_of (files w) p \<noteq> None)"

text \<open>
  \<^verbatim>\<open>os.path.isdir\<close>: a listed directory, or a path that has a listed path below it.
\<close>

definition isdir :: "world \<Rightarrow> string \<Rightarrow> bool" where
  "isdir w p = (p \<in> set (dirs w) \<or> list_ex (starts_with (p @ ''/'')) (entries w))"

text \<open>
  What a directory listing at the depth of the migration files shows of a listed path:
  the path itself when it has four components, its ancestor with four components when
  it lies deeper (a directory then), nothing when it lies higher.
\<close>

definition at_depth_4 :: "string \<Rightarrow> string option" where
  "at_depth_4 p =
     (let cs = split_path p in
      if 4 \<le> length cs then Some (join_slash (take 4 cs)) else None)"

text \<open>
  The result of \<^verbatim>\<open>glob.glob\<close> holds regular files and directories alike, each once, in
  the order of the listing.
\<close>

definition glob_migrations :: "string \<Rightarrow> world \<Rightarrow> string list" where
  "glob_migrations ext w =
     remdups (filter (matches_migration ext) (List.map_filter at_depth_4 (entries w)))"

text \<open>
  The error of \<^verbatim>\<open>open(p, "wb+")\<close>, if any. An existing regular file can be opened.
  Otherwise the name must not be empty, must not name a directory (by what it is, by a
  trailing slash or by a last component \<^verbatim>\<open>.\<close> or \<^verbatim>\<open>..\<close>), and the directory it lies in
  must exist.
\<close>

definition open_error :: "world \<Rightarrow> string \<Rightarrow> exn option" where
  "open_error w p =
     (if p = [] then Some FileNotFoundError
      else if isfile w p then None
      else if isdir w p \<or> basename p \<in> {[], ''.'', ''..''} then Some IsADirectoryError
      else (case parent_dir p of
              None \<Rightarrow> None
            | Some d \<Rightarrow>
                if d = [] \<or> isdir w d then None
                else if isfile w d then Some NotADirectoryError
                else Some FileNotFoundError))"

text \<open>\<^verbatim>\<open>open(p, "wb+")\<close> creates the file or empties it; \<^verbatim>\<open>f.write\<close> fills it.\<close>

definition file_open_trunc :: "string \<Rightarrow> unit prog" where
  "file_open_trunc p w =
     (case open_error w p of
        Some e \<Rightarrow> (Inl e, w)
      | None \<Rightarrow>
          (Inr (), w\<lparr>files := AList.update p [] (files w),
                      trace := trace w @ [FileCreate p]\<rparr>))"

definition file_write :: "string \<Rightarrow> string \<Rightarrow> unit prog" where
  "file_write p data w =
     (Inr (), w\<lparr>files := AList.update p data (files w), trace := trace w @ [FileWrite p data]\<rparr>)"

text \<open>\<^verbatim>\<open>open(p, 'rb').read()\<close>.\<close>

definition file_read :: "string \<Rightarrow> string prog" where
  "file_read p w =
     (case map_of (files w) p of
        Some d \<Rightarrow> (Inr d, w)
      | None \<Rightarrow> (Inl (if isdir w p then IsADirectoryError else FileNotFoundError), w))"

text \<open>
  The directory of a removed file stays, also when that file was all the world listed
  of it.
\<close>

definition keep_dir :: "string \<Rightarrow> string list \<Rightarrow> string list" where
  "keep_dir p ds =
     (case parent_dir p of
        None \<Rightarrow> ds
      | Some d \<Rightarrow> if d \<in> set ds then ds else ds @ [d])"

text \<open>\<^verbatim>\<open>os.remove\<close> removes a regular file and nothing else.\<close>

definition os_remove :: "string \<Rightarrow> unit prog" where
  "os_remove p w =
     (if isfile w p
      then (Inr (), w\<lparr>files := AList.delete p (files w), dirs := keep_dir p (dirs w),
                        trace := trace w @ [FileRemove p]\<rparr>)
      else if isdir w p then (Inl IsADirectoryError, w)
      else (Inl FileNotFoundError, w))"

text \<open>\<^verbatim>\<open>subprocess.run(cmd, shell=True)\<close>.\<close>

definition subprocess_run :: "string \<Rightarrow> unit prog" where
  "subprocess_run cmd = emit (Subprocess cmd)"

text \<open>
  The methods of a container object. On \<^verbatim>\<open>False\<close> and on \<^verbatim>\<open>None\<close> the attribute
  lookup itself fails.
\<close>

definition exec_run :: "container_ref \<Rightarrow> string \<Rightarrow> (int \<times> string) prog" where
  "exec_run c cmd w =
     (case c of
        Handle n st \<Rightarrow> (Inr (exec_result w n cmd), w\<lparr>trace := trace w @ [ExecRun n cmd]\<rparr>)
      | _ \<Rightarrow> (Inl AttributeError, w))"

definition put_archive :: "container_ref \<Rightarrow> string \<Rightarrow> archive \<Rightarrow> unit prog" where
  "put_archive c path data w =
     (case c of
        Handle n st \<Rightarrow> (Inr (), w\<lparr>trace := trace w @ [PutArchive n path data]\<rparr>)
      | _ \<Rightarrow> (Inl AttributeError, w))"

definition container_start :: "container_ref \<Rightarrow> unit prog" where
  "container_start c w =
     (case c of
        Handle n st \<Rightarrow>
          (Inr (), w\<lparr>containers := (containers w)(n \<mapsto> ''running''),
                      trace := trace w @ [ContainerStart n]\<rparr>)
      | _ \<Rightarrow> (Inl AttributeError, w))"

definition container_stop :: "container_ref \<Rightarrow> unit prog" where
  "container_stop c w =
     (case c of
        Handle n st \<Rightarrow>
          (Inr (), w\<lparr>containers := (containers w)(n \<mapsto> ''exited''),
                      trace := trace w @ [ContainerStop n]\<rparr>)
      | _ \<Rightarrow> (Inl AttributeError, w))"

text \<open>\<^verbatim>\<open>docker_client.containers.get\<close>, with the \<^verbatim>\<open>NotFound\<close> it may raise caught.\<close>

definition containers_get :: "string \<Rightarrow> container_ref prog" where
  "containers_get n w =
     ((case containers w n of None \<Rightarrow> Inr NotFound | Some st \<Rightarrow> Inr (Handle n st)),
      w\<lparr>trace := trace w @ [ContainersGet n]\<rparr>)"

section \<open>The script\<close>

definition db_container_name :: string where
  "db_container_name = ''db''"

definition django_container_name :: string where
  "django_container_name = ''backend''"

text \<open>\<^verbatim>\<open>not container\<close>: \<^verbatim>\<open>False\<close> and \<^verbatim>\<open>None\<close> are falsy, a container object is not.\<close>

fun falsy :: "container_ref \<Rightarrow> bool" where
  "falsy NotDeclared = True"
| "falsy NotFound = True"
| "falsy (Handle n st) = False"

definition get_container :: "string \<Rightarrow> container_ref prog" where
  "get_container container_name w =
     (if container_name \<notin> set (services w) then ret NotDeclared w
      else containers_get container_name w)"

text \<open>\<^verbatim>\<open>container.attrs["State"]["Status"]\<close> is read only from a container object.\<close>

definition is_running :: "string \<Rightarrow> bool prog" where
  \<open>is_running container_name =
     bnd (get_container container_name) (\<lambda>container.
       case container of
         Handle n status \<Rightarrow> (if status = ''running'' then ret True else ret False)
       | _ \<Rightarrow> ret False)\<close>

fun are_running_loop :: "string list \<Rightarrow> bool prog" where
  "are_running_loop [] = ret True"
| "are_running_loop (container # rest) =
     bnd (is_running container) (\<lambda>r. if \<not> r then ret False else are_running_loop rest)"

definition are_containers_running :: "bool prog" where
  "are_containers_running w = are_running_loop (services w) w"

definition start_container :: "string \<Rightarrow> bool prog" where
  \<open>start_container container_name =
     bnd (get_container container_name) (\<lambda>container.
       if falsy container then
         seq (print (''Impossible to start "'' @ container_name @ ''" container: container not found''))
             (ret False)
       else
         seq (print_cr (''Starting "'' @ container_name @ ''" container...''))
        (seq (container_start container)
        (seq (print (''"'' @ container_name @ ''" container started    ''))
             (ret True))))\<close>

definition stop_container :: "string \<Rightarrow> bool prog" where
  \<open>stop_container container_name =
     bnd (get_container container_name) (\<lambda>container.
       if falsy container then
         seq (print (''Impossible to stop "'' @ container_name @ ''" container: container not found''))
             (ret False)
       else
         seq (print_cr (''Stopping "'' @ container_name @ ''" container...''))
        (seq (container_stop container)
        (seq (print (''"'' @ container_name @ ''" container stopped    ''))
             (ret True))))\<close>

definition dump_cmd :: "world \<Rightarrow> string" where
  "dump_cmd w = ''pg_dump -Fc -U '' @ fmt (DB_USER w) @ '' '' @ fmt (DB_NAME w)"

text \<open>The argument is \<open>None\<close> when the caller leaves the filename to its default.\<close>

definition dump_db :: "string option \<Rightarrow> bool prog" where
  \<open>dump_db arg w =
     (let dump_filename = (case arg of None \<Rightarrow> ''db.dump'' | Some f \<Rightarrow> f) in
      bnd (get_container db_container_name) (\<lambda>db_container.
      seq (print_cr ''Dumping db...'')
     (bnd (exec_run db_container (dump_cmd w)) (\<lambda>dump_result.
        if fst dump_result \<noteq> 0 then
          seq (print ''Error while dumping'') (ret False)
        else
          seq (print ''Db dumped    '')
         (seq (file_open_trunc dump_filename)
         (seq (print_cr (''Writing dump to '' @ dump_filename @ ''...''))
         (seq (file_write dump_filename (snd dump_result))
         (seq (print (''Dump written to '' @ dump_filename @ ''   ''))
              (ret True)))))))) w)\<close>

text \<open>The archive has one entry: the file's name, its size and its bytes.\<close>

definition create_archive :: "string \<Rightarrow> archive prog" where
  "create_archive artifact_file =
     bnd (file_read artifact_file) (\<lambda>file_data.
       ret (artifact_file, length file_data, file_data))"

definition copy_to_container :: "container_ref \<Rightarrow> string \<Rightarrow> string \<Rightarrow> unit prog" where
  "copy_to_container container artifact_file path =
     bnd (create_archive artifact_file) (\<lambda>archive. put_archive container path archive)"

definition restore_cmd :: "world \<Rightarrow> string \<Rightarrow> string" where
  "restore_cmd w dump_filename =
     ''pg_restore --clean --create -U '' @ fmt (DB_USER w) @ '' -d postgres /tmp/'' @ dump_filename"

definition restore_db :: "string \<Rightarrow> bool prog" where
  \<open>restore_db dump_filename w =
     (if \<not> isfile w dump_filename then
        seq (print (''File "'' @ dump_filename @ ''" doesn't exists!'')) (ret False) w
      else
        bnd (get_container db_container_name) (\<lambda>db_container.
        seq (stop_container django_container_name)
       (seq (print_cr ''Copying file to container...'')
       (seq (copy_to_container db_container dump_filename ''/tmp'')
       (seq (print ''File copied to container    '')
       (seq (print_cr ''Restoring db...'')
       (bnd (exec_run db_container (restore_cmd w dump_filename)) (\<lambda>restore_result.
        seq (if fst restore_result = 0 then print ''Db restored    '' else ret ())
       (seq (start_container django_container_name)
            (if fst restore_result \<noteq> 0 then
               seq (print ''Error while restoring'') (ret False)
             else ret True))))))))) w)\<close>

definition create_cmd :: "world \<Rightarrow> string" where
  "create_cmd w = ''createdb -U '' @ fmt (DB_USER w) @ '' '' @ fmt (DB_NAME w)"

definition create_db :: "bool prog" where
  \<open>create_db w =
     bnd (get_container db_container_name) (\<lambda>db_container.
     seq (print_cr ''Creating db...'')
    (bnd (exec_run db_container (create_cmd w)) (\<lambda>dump_result.
       if fst dump_result \<noteq> 0 then
         seq (print ''Error while creating db'') (ret False)
       else
         seq (print ''Db re-created '') (ret True)))) w\<close>

definition drop_cmd :: "world \<Rightarrow> string" where
  "drop_cmd w = ''dropdb -U '' @ fmt (DB_USER w) @ '' '' @ fmt (DB_NAME w)"

definition reset_db :: "bool prog" where
  \<open>reset_db w =
     bnd (get_container db_container_name) (\<lambda>db_container.
     seq (stop_container django_container_name)
    (seq (print_cr ''Dropping db...'')
    (bnd (exec_run db_container (drop_cmd w)) (\<lambda>dump_result.
     seq (if fst dump_result \<noteq> 0 then print ''Error while dropping db''
          else print ''Db dropped     '')
    (seq create_db
    (seq (start_container django_container_name)
         (if fst dump_result \<noteq> 0 then ret False else ret True))))))) w\<close>

fun remove_loop :: "string list \<Rightarrow> unit prog" where
  "remove_loop [] = ret ()"
| "remove_loop (file # rest) = seq (os_remove file) (remove_loop rest)"

definition migration_files :: "world \<Rightarrow> string list" where
  "migration_files w =
     filter (\<lambda>x. \<not> str_in ''__init__.py'' x) (glob_migrations ''.py'' w)
     @ glob_migrations ''.pyc'' w"

definition delete_migrations :: "unit prog" where
  "delete_migrations w = remove_loop (migration_files w) w"

definition django_migrate :: "unit prog" where
  "django_migrate =
     seq (subprocess_run ''docker exec -it backend /app/manage.py makemigrations'')
         (subprocess_run ''docker exec -it backend /app/manage.py migrate'')"

definition reset_django :: "unit prog" where
  "reset_django = seq delete_migrations (seq reset_db django_migrate)"

definition manage :: "string \<Rightarrow> unit prog" where
  "manage args = subprocess_run (''docker exec -it backend /app/manage.py '' @ args)"

definition compose_build :: "unit prog" where
  "compose_build = subprocess_run ''docker compose build''"

definition compose_up :: "unit prog" where
  "compose_up = subprocess_run ''docker compose up -d''"

definition shell :: "string \<Rightarrow> unit prog" where
  "shell container_name = subprocess_run (''docker exec -it '' @ container_name @ '' sh'')"

definition compose_down :: "unit prog" where
  "compose_down = subprocess_run ''docker compose down''"

definition usage_lines :: "string list" where
  \<open>usage_lines =
     [''Usage: python containers.py [action]'',
      [],
      ''Actions:'',
      ''-h   --help                      Print help'',
      ''build [?up]                      Build and eventually run containers'',
      ''up                               Run containers'',
      ''down                             Stop containers'',
      ''shell [container_name]           Enter container's shell'',
      ''dump [?filename="db.dump"]       Dump database'',
      ''restore [filename]               Restore database from dump'',
      ''resetdb                          Drop and re-create db'',
      ''resetdjango                      Reset db and django migrations'',
      ''manage [options]                 Run django manage.py'']\<close>

fun print_lines :: "string list \<Rightarrow> unit prog" where
  "print_lines [] = ret ()"
| "print_lines (l # ls) = seq (print l) (print_lines ls)"

definition print_usage :: "unit prog" where
  "print_usage = print_lines usage_lines"

definition run_up_first :: "string \<Rightarrow> string" where
  \<open>run_up_first cmd = ''Run "python containers.py up" before running '' @ cmd @ ''!''\<close>

definition not_found :: "string \<Rightarrow> string" where
  "not_found cmd = ''Command '' @ cmd @ '' not found. Refer to the usage manual:''"

text \<open>A call whose returned value the caller drops.\<close>

definition discard :: "'a prog \<Rightarrow> unit prog" where
  "discard m = bnd m (\<lambda>_. ret ())"

definition main :: "string list \<Rightarrow> unit prog" where
  "main argv =
     bnd are_containers_running (\<lambda>containers_running.
     seq delete_migrations
       (if length argv = 1 then print_usage
        else bnd (argv_at argv 1) (\<lambda>cmd.
          if cmd = ''-h'' \<or> cmd = ''--help'' \<or> cmd = ''help'' then print_usage
          else if cmd = ''build'' then
            seq compose_build
              (if length argv > 2 then
                 bnd (argv_at argv 2) (\<lambda>a. if a = ''up'' then compose_up else ret ())
               else ret ())
          else if cmd = ''up'' then compose_up
          else if \<not> containers_running then print (run_up_first cmd)
          else if cmd = ''shell'' then
            seq (if length argv < 3 then print ''Missing container name!'' else ret ())
           (seq (if length argv > 3 then print ''Too many arguments!'' else ret ())
                (bnd (argv_at argv 2) shell))
          else if cmd = ''down'' then compose_down
          else if cmd = ''dump'' then
            (if length argv > 2 then bnd (argv_at argv 2) (\<lambda>f. discard (dump_db (Some f)))
             else discard (dump_db None))
          else if cmd = ''restore'' then
            (if length argv < 3 then print ''Missing filename of the dump to restore!''
             else if length argv > 3 then print ''Too many arguments!''
             else bnd (argv_at argv 2) (\<lambda>f. discard (restore_db f)))
          else if cmd = ''resetdb'' then discard reset_db
          else if cmd = ''resetdjango'' then reset_django
          else if cmd = ''manage'' then manage (join_space (drop 2 argv))
          else seq (print (not_found cmd)) print_usage)))"

section \<open>The vocabulary of the properties\<close>

text \<open>A service is running when the runtime has its container in the state \<^verbatim>\<open>running\<close>.\<close>

definition running :: "world \<Rightarrow> string \<Rightarrow> bool" where
  "running w n = (containers w n = Some ''running'')"

definition all_running :: "world \<Rightarrow> bool" where
  "all_running w = list_all (running w) (services w)"

text \<open>
  A container is resolvable when the compose file declares its service and the runtime
  has a container of that name, in whatever state.
\<close>

definition resolvable :: "world \<Rightarrow> string \<Rightarrow> bool" where
  "resolvable w n = (n \<in> set (services w) \<and> containers w n \<noteq> None)"

text \<open>The services whose status gets looked up: all up to the first that is not running.\<close>

fun probed :: "(string \<Rightarrow> bool) \<Rightarrow> string list \<Rightarrow> string list" where
  "probed P [] = []"
| "probed P (x # xs) = x # (if P x then probed P xs else [])"

text \<open>
  The paths \<^verbatim>\<open>delete_migrations\<close> selects: a \<^verbatim>\<open>.py\<close> entry of a migrations directory
  whose path does not contain the text \<^verbatim>\<open>__init__.py\<close>, or a \<^verbatim>\<open>.pyc\<close> entry of a
  migrations directory.
\<close>

definition generated_migration :: "string \<Rightarrow> bool" where
  "generated_migration p =
     (matches_migration ''.py'' p \<and> \<not> str_in ''__init__.py'' p \<or> matches_migration ''.pyc'' p)"

text \<open>
  The framework's bootstrap file of a package is the one named \<^verbatim>\<open>__init__.py\<close>.
\<close>

definition bootstrap_file :: "string \<Rightarrow> bool" where
  "bootstrap_file p = (basename p = ''__init__.py'')"

text \<open>Nothing that the two patterns match is a directory.\<close>

definition no_dir_matches :: "world \<Rightarrow> bool" where
  "no_dir_matches w = list_all (isfile w) (migration_files w)"

text \<open>The file can be opened for writing.\<close>

definition can_open :: "world \<Rightarrow> string \<Rightarrow> bool" where
  "can_open w p = (open_error w p = None)"

text \<open>
  The world in which a command is dispatched when no directory matches the patterns:
  the status lookups are in the trace, the selected files are gone, their directories
  are still there.
\<close>

definition pre_dispatch :: "world \<Rightarrow> world" where
  "pre_dispatch w =
     w\<lparr>files := filter (\<lambda>kv. fst kv \<notin> set (migration_files w)) (files w),
       dirs := fold keep_dir (migration_files w) (dirs w),
       trace := trace w @ map ContainersGet (probed (running w) (services w))
                @ map FileRemove (migration_files w)\<rparr>"

text \<open>What a run added to the trace.\<close>

definition new_events :: "world \<Rightarrow> world \<Rightarrow> event list" where
  "new_events w w' = drop (length (trace w)) (trace w')"

fun is_runtime_call :: "event \<Rightarrow> bool" where
  "is_runtime_call (ContainersGet n) = True"
| "is_runtime_call (ContainerStop n) = True"
| "is_runtime_call (ContainerStart n) = True"
| "is_runtime_call (ExecRun n c) = True"
| "is_runtime_call (PutArchive n p a) = True"
| "is_runtime_call e = False"

fun is_file_change :: "event \<Rightarrow> bool" where
  "is_file_change (FileCreate p) = True"
| "is_file_change (FileWrite p d) = True"
| "is_file_change (FileRemove p) = True"
| "is_file_change e = False"

fun is_print :: "event \<Rightarrow> bool" where
  "is_print (Print s) = True"
| "is_print (PrintCR s) = True"
| "is_print e = False"

text \<open>The calls of a method of the container of a given name.\<close>

fun on_container :: "string \<Rightarrow> event \<Rightarrow> bool" where
  "on_container c (ContainerStop n) = (n = c)"
| "on_container c (ContainerStart n) = (n = c)"
| "on_container c (ExecRun n cmd) = (n = c)"
| "on_container c (PutArchive n p a) = (n = c)"
| "on_container c e = False"

definition recognized :: "string list" where
  "recognized = [''help'', ''-h'', ''--help'', ''build'', ''up'', ''down'', ''shell'', ''dump'',
     ''restore'', ''resetdb'', ''resetdjango'', ''manage'']"

definition stack_dependent :: "string list" where
  "stack_dependent = [''shell'', ''down'', ''dump'', ''restore'', ''resetdb'', ''resetdjango'',
     ''manage'']"

text \<open>A program only ever adds to the trace.\<close>

definition appends :: "'a prog \<Rightarrow> bool" where
  "appends m = (\<forall>w. prefix (trace w) (trace (snd (m w))))"

subsection \<open>Worlds to run the script in\<close>

definition example_world :: world where
  "example_world =
     \<lparr>services = [''db'', ''backend''],
      DB_USER = Some ''shop'',
      DB_NAME = Some ''shopdb'',
      containers = [''db'' \<mapsto> ''running'', ''backend'' \<mapsto> ''running''],
      exec_result = (\<lambda>c cmd. (0, ''PGDMP'')),
      files = [(''db.dump'', ''old''),
               (''backend/shop/migrations/__init__.py'', []),
               (''backend/shop/migrations/0001_initial.py'', ''m1''),
               (''backend/shop/migrations/0001_initial.pyc'', ''c1''),
               (''backend/shop/models.py'', ''src'')],
      dirs = [''backend'', ''backend/shop'', ''backend/shop/migrations''],
      trace = []\<rparr>"

definition stopped_world :: world where
  "stopped_world =
     example_world\<lparr>containers := [''db'' \<mapsto> ''running'', ''backend'' \<mapsto> ''exited'']\<rparr>"

definition failing_world :: world where
  "failing_world = example_world\<lparr>exec_result := (\<lambda>c cmd. (1, ''error''))\<rparr>"

definition undeclared_db_world :: world where
  "undeclared_db_world = example_world\<lparr>services := [''backend'']\<rparr>"

text \<open>A world with a directory \<^verbatim>\<open>pkg.py\<close> among the migrations, and the same stopped.\<close>

definition directory_world :: world where
  "directory_world =
     example_world
       \<lparr>files := (''backend/shop/migrations/pkg.py/mod.txt'', ''x'') # files example_world\<rparr>"

definition stopped_directory_world :: world where
  "stopped_directory_world =
     directory_world\<lparr>containers := [''db'' \<mapsto> ''running'', ''backend'' \<mapsto> ''exited'']\<rparr>"

text \<open>A world with a migration whose name ends with the name of the bootstrap file.\<close>

definition odd_name_world :: world where
  "odd_name_world =
     example_world
       \<lparr>files := files example_world @ [(''backend/shop/migrations/my__init__.py'', ''m2'')]\<rparr>"

section \<open>Helper lemmas\<close>

lemmas prims = bnd_def seq_def ret_def raise_def emit_def print_def print_cr_def
  get_container_def containers_get_def exec_run_def put_archive_def container_start_def
  container_stop_def file_open_trunc_def file_write_def file_read_def subprocess_run_def
  db_container_name_def django_container_name_def start_container_def stop_container_def
  create_archive_def copy_to_container_def discard_def

lemma starts_with_prefix: "starts_with p s \<longleftrightarrow> prefix p s"
  by (induction p s rule: starts_with.induct) simp_all

lemma ends_with_suffix: "ends_with suf s \<longleftrightarrow> suffix suf s"
  by (simp add: ends_with_def starts_with_prefix suffix_to_prefix)

lemma str_in_sublist: "str_in sub s \<longleftrightarrow> sublist sub s"
  by (induction s) (auto simp: starts_with_prefix sublist_Cons_right)

lemma split_path_not_Nil [simp]: "split_path p \<noteq> []"
  by (induction p) (auto split: list.splits)

lemma join_split_path [simp]: "join_slash (split_path p) = p"
proof (induction p)
  case Nil
  then show ?case by simp
next
  case (Cons c cs)
  obtain x xs where s: "split_path cs = x # xs"
    by (cases "split_path cs") auto
  show ?case
  proof (cases "c = CHR ''/''")
    case True
    then show ?thesis using Cons s by simp
  next
    case False
    then show ?thesis using Cons s by (cases xs) auto
  qed
qed

lemma matches_at_depth_4: "matches_migration ext p \<Longrightarrow> at_depth_4 p = Some p"
proof -
  assume m: "matches_migration ext p"
  then obtain b app mg f where s: "split_path p = [b, app, mg, f]"
    by (auto simp: matches_migration_def split: list.splits)
  have "join_slash (take 4 (split_path p)) = join_slash (split_path p)"
    by (simp add: s)
  then show ?thesis by (simp add: at_depth_4_def Let_def s [THEN arg_cong, of length])
qed

lemma py_not_pyc: "ends_with ''.py'' f \<Longrightarrow> \<not> ends_with ''.pyc'' f"
  by (cases "rev f") (auto simp: ends_with_def)

lemma matches_py_not_pyc: "matches_migration ''.py'' p \<Longrightarrow> \<not> matches_migration ''.pyc'' p"
  by (auto simp: matches_migration_def py_not_pyc split: list.splits)

lemma isfile_iff: "isfile w p \<longleftrightarrow> p \<in> fst ` set (files w)"
  by (simp add: isfile_def map_of_eq_None_iff)

lemma file_in_glob:
  assumes "isfile w p" and "matches_migration ext p"
  shows "p \<in> set (glob_migrations ext w)"
proof -
  from assms(1) have "p \<in> set (entries w)" by (auto simp: isfile_iff entries_def)
  with matches_at_depth_4 [OF assms(2)]
  have "p \<in> set (List.map_filter at_depth_4 (entries w))"
    by (force simp: map_filter_def)
  with assms(2) show ?thesis by (simp add: glob_migrations_def)
qed

lemma glob_matches: "p \<in> set (glob_migrations ext w) \<Longrightarrow> matches_migration ext p"
  by (simp add: glob_migrations_def)

lemma set_migration_files:
  assumes "no_dir_matches w"
  shows "set (migration_files w) = {p. isfile w p \<and> generated_migration p}"
proof (intro set_eqI iffI)
  fix p assume p: "p \<in> set (migration_files w)"
  then have "isfile w p" using assms by (simp add: no_dir_matches_def list_all_iff)
  moreover from p have "generated_migration p"
    by (auto simp: migration_files_def generated_migration_def dest: glob_matches)
  ultimately show "p \<in> {p. isfile w p \<and> generated_migration p}" by simp
next
  fix p assume "p \<in> {p. isfile w p \<and> generated_migration p}"
  then show "p \<in> set (migration_files w)"
    by (auto simp: migration_files_def generated_migration_def intro: file_in_glob)
qed

lemma distinct_migration_files: "distinct (migration_files w)"
  by (auto simp: migration_files_def glob_migrations_def dest: matches_py_not_pyc)

lemma is_running_eq:
  "n \<in> set (services w) \<Longrightarrow>
   is_running n w = (Inr (running w n), w\<lparr>trace := trace w @ [ContainersGet n]\<rparr>)"
  by (simp add: is_running_def get_container_def containers_get_def bnd_def ret_def running_def
      split: option.splits)

lemma are_running_loop_eq:
  "set xs \<subseteq> set (services w) \<Longrightarrow>
   are_running_loop xs w =
     (Inr (list_all (running w) xs), w\<lparr>trace := trace w @ map ContainersGet (probed (running w) xs)\<rparr>)"
proof (induction xs arbitrary: w)
  case Nil
  then show ?case by (simp add: ret_def)
next
  case (Cons x xs)
  let ?w1 = "w\<lparr>trace := trace w @ [ContainersGet x]\<rparr>"
  have 1: "is_running x w = (Inr (running w x), ?w1)"
    using Cons.prems by (simp add: is_running_eq)
  have 2: "set xs \<subseteq> set (services ?w1)" using Cons.prems by simp
  have 3: "running ?w1 = running w" by (simp add: running_def fun_eq_iff)
  show ?case
    using Cons.IH [OF 2] by (simp add: bnd_def 1 3 ret_def)
qed

lemma are_containers_running_eq:
  "are_containers_running w =
     (Inr (all_running w),
      w\<lparr>trace := trace w @ map ContainersGet (probed (running w) (services w))\<rparr>)"
  by (simp add: are_containers_running_def are_running_loop_eq all_running_def)

lemma remove_loop_eq:
  "distinct fs \<Longrightarrow> list_all (isfile w) fs \<Longrightarrow>
   remove_loop fs w =
     (Inr (), w\<lparr>files := filter (\<lambda>kv. fst kv \<notin> set fs) (files w),
                 dirs := fold keep_dir fs (dirs w),
                 trace := trace w @ map FileRemove fs\<rparr>)"
proof (induction fs arbitrary: w)
  case Nil
  then show ?case by (simp add: ret_def)
next
  case (Cons f fs)
  let ?w1 = "w\<lparr>files := AList.delete f (files w), dirs := keep_dir f (dirs w),
               trace := trace w @ [FileRemove f]\<rparr>"
  have 1: "os_remove f w = (Inr (), ?w1)"
    using Cons.prems by (simp add: os_remove_def)
  have 2: "list_all (isfile ?w1) fs"
    using Cons.prems by (auto simp: list_all_iff isfile_def delete_conv)
  have 3: "distinct fs" using Cons.prems by simp
  have 4: "filter (\<lambda>kv. fst kv \<notin> set fs) (AList.delete f (files w))
           = filter (\<lambda>kv. fst kv \<notin> set (f # fs)) (files w)"
    by (auto simp: AList.delete_eq intro!: filter_cong)
  show ?case
    using Cons.IH [OF 3 2] 4 by (simp add: seq_def bnd_def 1)
qed

lemma delete_migrations_eq:
  "no_dir_matches w \<Longrightarrow>
   delete_migrations w =
     (Inr (), w\<lparr>files := filter (\<lambda>kv. fst kv \<notin> set (migration_files w)) (files w),
                 dirs := fold keep_dir (migration_files w) (dirs w),
                 trace := trace w @ map FileRemove (migration_files w)\<rparr>)"
  by (simp add: delete_migrations_def remove_loop_eq distinct_migration_files
      no_dir_matches_def)

lemma migration_files_trace [simp]: "migration_files (w\<lparr>trace := t\<rparr>) = migration_files w"
  by (simp add: migration_files_def glob_migrations_def entries_def)

lemma fs_trace [simp]:
  "isfile (w\<lparr>trace := t\<rparr>) = isfile w"
  "isdir (w\<lparr>trace := t\<rparr>) = isdir w"
  by (simp_all add: fun_eq_iff isfile_def isdir_def entries_def)

lemma open_error_trace [simp]: "open_error (w\<lparr>trace := t\<rparr>) = open_error w"
  by (simp add: fun_eq_iff open_error_def cong: option.case_cong if_cong)

lemma no_dir_matches_trace [simp]: "no_dir_matches (w\<lparr>trace := t\<rparr>) = no_dir_matches w"
  by (simp add: no_dir_matches_def)

lemma pre_dispatch_eq:
  "no_dir_matches w \<Longrightarrow>
   bnd are_containers_running (\<lambda>r. seq delete_migrations (k r)) w
     = k (all_running w) (pre_dispatch w)"
  by (simp add: bnd_def are_containers_running_eq seq_def delete_migrations_eq pre_dispatch_def)

lemma print_lines_eq:
  "print_lines ls w = (Inr (), w\<lparr>trace := trace w @ map Print ls\<rparr>)"
  by (induction ls arbitrary: w) (simp_all add: prims)

lemma print_usage_eq:
  "print_usage w = (Inr (), w\<lparr>trace := trace w @ map Print usage_lines\<rparr>)"
  by (simp add: print_usage_def print_lines_eq)

lemma new_events_append [simp]: "new_events w (w'\<lparr>trace := trace w @ evs\<rparr>) = evs"
  by (simp add: new_events_def)

lemma new_events_same [simp]: "new_events w w = []"
  by (simp add: new_events_def)

lemma all_running_resolvable:
  "all_running w \<Longrightarrow> n \<in> set (services w) \<Longrightarrow> resolvable w n"
  by (auto simp: all_running_def running_def resolvable_def list_all_iff)

lemma files_pre_dispatch:
  "no_dir_matches w \<Longrightarrow>
   files (pre_dispatch w) = filter (\<lambda>kv. \<not> generated_migration (fst kv)) (files w)"
  by (auto simp: pre_dispatch_def set_migration_files isfile_iff intro!: filter_cong)

subsection \<open>The dispatcher after its first two steps\<close>

lemma main_dispatch:
  "no_dir_matches w \<Longrightarrow>
   main argv w =
     (if length argv = 1 then print_usage
        else bnd (argv_at argv 1) (\<lambda>cmd.
          if cmd = ''-h'' \<or> cmd = ''--help'' \<or> cmd = ''help'' then print_usage
          else if cmd = ''build'' then
            seq compose_build
              (if length argv > 2 then
                 bnd (argv_at argv 2) (\<lambda>a. if a = ''up'' then compose_up else ret ())
               else ret ())
          else if cmd = ''up'' then compose_up
          else if \<not> all_running w then print (run_up_first cmd)
          else if cmd = ''shell'' then
            seq (if length argv < 3 then print ''Missing container name!'' else ret ())
           (seq (if length argv > 3 then print ''Too many arguments!'' else ret ())
                (bnd (argv_at argv 2) shell))
          else if cmd = ''down'' then compose_down
          else if cmd = ''dump'' then
            (if length argv > 2 then bnd (argv_at argv 2) (\<lambda>f. discard (dump_db (Some f)))
             else discard (dump_db None))
          else if cmd = ''restore'' then
            (if length argv < 3 then print ''Missing filename of the dump to restore!''
             else if length argv > 3 then print ''Too many arguments!''
             else bnd (argv_at argv 2) (\<lambda>f. discard (restore_db f)))
          else if cmd = ''resetdb'' then discard reset_db
          else if cmd = ''resetdjango'' then reset_django
          else if cmd = ''manage'' then manage (join_space (drop 2 argv))
          else seq (print (not_found cmd)) print_usage)) (pre_dispatch w)"
  unfolding main_def by (rule pre_dispatch_eq)

lemma argv_at_1 [simp]:
  "argv_at (prog # cmd # args) 1 = ret cmd"
  "argv_at (prog # cmd # args) (Suc 0) = ret cmd"
  by (simp_all add: argv_at_def)

lemma bnd_ret [simp]: "bnd (ret x) f = f x"
  by (simp add: bnd_def ret_def fun_eq_iff)

lemma main_dump:
  assumes "all_running w" and "no_dir_matches w"
  shows "main [prog, ''dump''] w = discard (dump_db None) (pre_dispatch w)"
    and "main (prog # ''dump'' # f # rest) w = discard (dump_db (Some f)) (pre_dispatch w)"
  using assms by (simp_all add: main_dispatch argv_at_def)

lemma main_shell_without_name:
  "all_running w \<Longrightarrow> no_dir_matches w \<Longrightarrow>
   main [prog, ''shell''] w =
     (Inl IndexError,
      (pre_dispatch w)\<lparr>trace := trace (pre_dispatch w) @ [Print ''Missing container name!'']\<rparr>)"
  by (simp add: main_dispatch argv_at_def raise_def seq_def bnd_def print_def emit_def)

subsection \<open>The database operations on a resolvable stack\<close>

lemma dump_db_ok:
  assumes "resolvable w ''db''" "exec_result w ''db'' (dump_cmd w) = (0, d)"
    and "can_open w (case arg of None \<Rightarrow> ''db.dump'' | Some f \<Rightarrow> f)"
  shows "dump_db arg w =
     (let f = (case arg of None \<Rightarrow> ''db.dump'' | Some f \<Rightarrow> f) in
     (Inr True, w\<lparr>files := AList.update f d (files w),
       trace := trace w @ [ContainersGet ''db'', PrintCR ''Dumping db...'',
          ExecRun ''db'' (dump_cmd w), Print ''Db dumped    '', FileCreate f,
          PrintCR (''Writing dump to '' @ f @ ''...''),
          FileWrite f d, Print (''Dump written to '' @ f @ ''   '')]\<rparr>))"
  using assms
  by (auto simp add: dump_db_def prims resolvable_def Let_def can_open_def file_open_trunc_def)

lemma dump_db_cannot_open:
  assumes "resolvable w ''db''" "fst (exec_result w ''db'' (dump_cmd w)) = 0"
    and "open_error w (case arg of None \<Rightarrow> ''db.dump'' | Some f \<Rightarrow> f) = Some e"
  shows "dump_db arg w =
     (Inl e, w\<lparr>trace := trace w @ [ContainersGet ''db'', PrintCR ''Dumping db...'',
          ExecRun ''db'' (dump_cmd w), Print ''Db dumped    '']\<rparr>)"
  using assms
  by (auto simp add: dump_db_def prims resolvable_def Let_def file_open_trunc_def)

lemma dump_db_fail:
  assumes "resolvable w ''db''" "fst (exec_result w ''db'' (dump_cmd w)) \<noteq> 0"
  shows "dump_db arg w =
     (Inr False, w\<lparr>trace := trace w @ [ContainersGet ''db'', PrintCR ''Dumping db...'',
          ExecRun ''db'' (dump_cmd w), Print ''Error while dumping'']\<rparr>)"
  using assms by (auto simp add: dump_db_def prims resolvable_def Let_def)

lemma reset_db_eq:
  assumes "resolvable w ''db''" and "resolvable w ''backend''"
  shows \<open>reset_db w =
     (Inr (fst (exec_result w ''db'' (drop_cmd w)) = 0),
      w\<lparr>containers := (containers w)(''backend'' \<mapsto> ''running''),
        trace := trace w @
         [ContainersGet ''db'', ContainersGet ''backend'',
          PrintCR ''Stopping "backend" container...'', ContainerStop ''backend'',
          Print ''"backend" container stopped    '',
          PrintCR ''Dropping db...'', ExecRun ''db'' (drop_cmd w),
          Print (if fst (exec_result w ''db'' (drop_cmd w)) \<noteq> 0
                 then ''Error while dropping db'' else ''Db dropped     ''),
          ContainersGet ''db'', PrintCR ''Creating db...'', ExecRun ''db'' (create_cmd w),
          Print (if fst (exec_result w ''db'' (create_cmd w)) \<noteq> 0
                 then ''Error while creating db'' else ''Db re-created ''),
          ContainersGet ''backend'', PrintCR ''Starting "backend" container...'',
          ContainerStart ''backend'', Print ''"backend" container started    '']\<rparr>)\<close>
  using assms
  by (auto simp add: reset_db_def create_db_def prims resolvable_def create_cmd_def drop_cmd_def)

lemma resolvable_files_trace [simp]:
  "resolvable (w\<lparr>files := fs, dirs := ds, trace := t\<rparr>) n = resolvable w n"
  by (simp add: resolvable_def)

lemma cmd_files_trace [simp]:
  "drop_cmd (w\<lparr>files := fs, dirs := ds, trace := t\<rparr>) = drop_cmd w"
  "create_cmd (w\<lparr>files := fs, dirs := ds, trace := t\<rparr>) = create_cmd w"
  "dump_cmd (w\<lparr>files := fs, dirs := ds, trace := t\<rparr>) = dump_cmd w"
  by (simp_all add: drop_cmd_def create_cmd_def dump_cmd_def)

lemma pre_dispatch_fields [simp]:
  "resolvable (pre_dispatch w) n = resolvable w n"
  "dump_cmd (pre_dispatch w) = dump_cmd w"
  "exec_result (pre_dispatch w) = exec_result w"
  by (simp_all add: pre_dispatch_def)

subsection \<open>The database operations when the db container does not resolve\<close>

lemma db_unresolved_cases:
  assumes "\<not> resolvable w ''db''"
  obtains (undeclared) "''db'' \<notin> set (services w)"
    | (absent) "''db'' \<in> set (services w)" "containers w ''db'' = None"
  using assms by (auto simp: resolvable_def)

lemma backend_cases:
  obtains (undeclared) "''backend'' \<notin> set (services w)"
    | (absent) "''backend'' \<in> set (services w)" "containers w ''backend'' = None"
    | (present) st where "''backend'' \<in> set (services w)" "containers w ''backend'' = Some st"
  by (cases "containers w ''backend''") auto

lemma dump_db_unresolved:
  assumes "\<not> resolvable w ''db''"
  shows "fst (dump_db arg w) = Inl AttributeError
    \<and> filter (on_container ''db'') (new_events w (snd (dump_db arg w))) = []"
  using assms
  by (cases rule: db_unresolved_cases) (simp_all add: dump_db_def prims Let_def)

lemma create_db_unresolved:
  assumes "\<not> resolvable w ''db''"
  shows "fst (create_db w) = Inl AttributeError
    \<and> filter (on_container ''db'') (new_events w (snd (create_db w))) = []"
  using assms
  by (cases rule: db_unresolved_cases) (simp_all add: create_db_def prims)

lemma reset_db_unresolved:
  assumes "\<not> resolvable w ''db''"
  shows "fst (reset_db w) = Inl AttributeError
    \<and> filter (on_container ''db'') (new_events w (snd (reset_db w))) = []"
  using assms
proof (cases rule: db_unresolved_cases)
  case undeclared
  then show ?thesis
    by (cases w rule: backend_cases) (simp_all add: reset_db_def prims)
next
  case absent
  then show ?thesis
    by (cases w rule: backend_cases) (simp_all add: reset_db_def prims)
qed

lemma restore_db_unresolved:
  assumes "\<not> resolvable w ''db''" and "isfile w f"
  shows "fst (restore_db f w) = Inl AttributeError
    \<and> filter (on_container ''db'') (new_events w (snd (restore_db f w))) = []"
proof -
  from assms(2) obtain d where d: "map_of (files w) f = Some d" by (auto simp: isfile_def)
  from assms(1) show ?thesis
  proof (cases rule: db_unresolved_cases)
    case undeclared
    then show ?thesis using assms(2) d
      by (cases w rule: backend_cases) (simp_all add: restore_db_def prims)
  next
    case absent
    then show ?thesis using assms(2) d
      by (cases w rule: backend_cases) (simp_all add: restore_db_def prims)
  qed
qed

lemma db_resolved_returns:
  assumes "resolvable w ''db''"
  shows "(fst (exec_result w ''db'' (dump_cmd w)) \<noteq> 0
       \<or> can_open w (case arg of None \<Rightarrow> ''db.dump'' | Some f \<Rightarrow> f) \<longrightarrow>
       fst (dump_db arg w) = Inr (fst (exec_result w ''db'' (dump_cmd w)) = 0))
    \<and> fst (create_db w) = Inr (fst (exec_result w ''db'' (create_cmd w)) = 0)
    \<and> fst (reset_db w) = Inr (fst (exec_result w ''db'' (drop_cmd w)) = 0)
    \<and> fst (restore_db f w) =
         Inr (isfile w f \<and> fst (exec_result w ''db'' (restore_cmd w f)) = 0)"
proof -
  from assms obtain st where db: "''db'' \<in> set (services w)" "containers w ''db'' = Some st"
    by (auto simp: resolvable_def)
  have 1: "fst (exec_result w ''db'' (dump_cmd w)) \<noteq> 0
       \<or> can_open w (case arg of None \<Rightarrow> ''db.dump'' | Some f \<Rightarrow> f) \<longrightarrow>
       fst (dump_db arg w) = Inr (fst (exec_result w ''db'' (dump_cmd w)) = 0)"
    using db by (auto simp add: dump_db_def prims Let_def can_open_def file_open_trunc_def)
  have 2: "fst (create_db w) = Inr (fst (exec_result w ''db'' (create_cmd w)) = 0)"
    using db by (simp add: create_db_def prims)
  have 3: "fst (reset_db w) = Inr (fst (exec_result w ''db'' (drop_cmd w)) = 0)"
    using db
    by (cases w rule: backend_cases)
       (simp_all add: reset_db_def create_db_def prims drop_cmd_def create_cmd_def)
  have 4: "fst (restore_db f w) =
         Inr (isfile w f \<and> fst (exec_result w ''db'' (restore_cmd w f)) = 0)"
  proof (cases "map_of (files w) f")
    case None
    then show ?thesis by (simp add: restore_db_def prims isfile_def)
  next
    case (Some d)
    then show ?thesis
      using db
      by (cases w rule: backend_cases)
         (simp_all add: restore_db_def prims isfile_def restore_cmd_def)
  qed
  from 1 2 3 4 show ?thesis by blast
qed

subsection \<open>Every program only adds to the trace\<close>

lemma appends_ret: "appends (ret x)"
  by (simp add: appends_def ret_def)

lemma appends_raise: "appends (raise e)"
  by (simp add: appends_def raise_def)

lemma appends_emit: "appends (emit ev)"
  by (simp add: appends_def emit_def)

lemma appends_bnd: "appends m \<Longrightarrow> (\<And>x. appends (f x)) \<Longrightarrow> appends (bnd m f)"
  unfolding appends_def bnd_def
proof
  fix w
  assume m: "\<forall>w. prefix (trace w) (trace (snd (m w)))"
    and f: "\<And>x. \<forall>w. prefix (trace w) (trace (snd (f x w)))"
  obtain r w' where mw: "m w = (r, w')" by (cases "m w")
  have 1: "prefix (trace w) (trace w')" using m [rule_format, of w] mw by simp
  show "prefix (trace w)
     (trace (snd (case m w of (Inl e, w') \<Rightarrow> (Inl e, w') | (Inr x, w') \<Rightarrow> f x w')))"
  proof (cases r)
    case (Inl e)
    then show ?thesis using mw 1 by simp
  next
    case (Inr x)
    have "prefix (trace w') (trace (snd (f x w')))" using f [of x] by simp
    with 1 have "prefix (trace w) (trace (snd (f x w')))" by (rule prefix_order.trans)
    then show ?thesis using mw Inr by simp
  qed
qed

lemma appends_seq: "appends m \<Longrightarrow> appends k \<Longrightarrow> appends (seq m k)"
  by (simp add: seq_def appends_bnd)

lemma appends_if: "appends a \<Longrightarrow> appends b \<Longrightarrow> appends (if c then a else b)"
  by simp

lemma appends_discard: "appends m \<Longrightarrow> appends (discard m)"
  by (simp add: discard_def appends_bnd appends_ret)

lemma appends_print: "appends (print s)" "appends (print_cr s)" "appends (subprocess_run s)"
  by (simp_all add: print_def print_cr_def subprocess_run_def appends_emit)

lemma appends_argv_at: "appends (argv_at argv i)"
  by (simp add: argv_at_def appends_ret appends_raise)

lemma appends_get_container: "appends (get_container n)"
  by (simp add: appends_def get_container_def containers_get_def ret_def)

lemma appends_methods:
  "appends (exec_run c cmd)" "appends (put_archive c p a)"
  "appends (container_start c)" "appends (container_stop c)"
  by (cases c; simp add: appends_def exec_run_def put_archive_def container_start_def
      container_stop_def)+

lemma appends_files:
  "appends (file_open_trunc p)" "appends (file_write p d)" "appends (file_read p)"
  "appends (os_remove p)"
  by (simp_all add: appends_def file_open_trunc_def file_write_def file_read_def os_remove_def
      split: option.splits)

lemmas appends_intros = appends_ret appends_raise appends_emit appends_bnd appends_seq
  appends_if appends_discard appends_print appends_argv_at appends_get_container
  appends_methods appends_files

lemma appends_start_stop: "appends (start_container n)" "appends (stop_container n)"
  unfolding start_container_def stop_container_def by (intro appends_intros)+

lemma appends_print_lines: "appends (print_lines ls)"
  by (induction ls) (simp_all add: appends_intros)

lemma appends_remove_loop: "appends (remove_loop fs)"
  by (induction fs) (simp_all add: appends_intros)

lemma appends_at: "appends m \<Longrightarrow> prefix (trace w) (trace (snd (m w)))"
  by (simp add: appends_def)

lemma appends_cond:
  "prefix (trace w) (trace (snd (a w))) \<Longrightarrow> prefix (trace w) (trace (snd (b w))) \<Longrightarrow>
   prefix (trace w) (trace (snd (if c then a w else b w)))"
  by simp

lemma appends_dump_db: "appends (dump_db arg)"
  unfolding appends_def dump_db_def Let_def
  by (intro allI appends_at appends_intros)

lemma appends_create_db: "appends create_db"
  unfolding appends_def create_db_def
  by (intro allI appends_at appends_intros)

lemma appends_reset_db: "appends reset_db"
  unfolding appends_def reset_db_def
  by (intro allI appends_at appends_intros appends_start_stop appends_create_db)

lemma appends_restore_db: "appends (restore_db f)"
  unfolding appends_def restore_db_def copy_to_container_def create_archive_def
  by (intro allI appends_cond appends_at appends_intros appends_start_stop)

lemma appends_delete_migrations: "appends delete_migrations"
  unfolding appends_def delete_migrations_def
  by (intro allI appends_at appends_remove_loop)

lemma appends_commands:
  "appends print_usage" "appends compose_build" "appends compose_up" "appends compose_down"
  "appends (shell n)" "appends (manage a)" "appends django_migrate" "appends reset_django"
  by (simp_all add: print_usage_def compose_build_def compose_up_def compose_down_def shell_def
      manage_def django_migrate_def reset_django_def appends_intros appends_print_lines
      appends_delete_migrations appends_reset_db)

lemma main_extends_pre_dispatch:
  "no_dir_matches w \<Longrightarrow> prefix (trace (pre_dispatch w)) (trace (snd (main argv w)))"
  unfolding main_dispatch
  by (intro appends_at appends_intros appends_commands appends_dump_db appends_restore_db
      appends_reset_db)

subsection \<open>The example worlds, evaluated\<close>

lemmas fs_defs = migration_files_def glob_migrations_def matches_migration_def ends_with_def
  entries_def at_depth_4_def map_filter_def Let_def

lemma migration_files_example:
  "migration_files example_world =
     [''backend/shop/migrations/0001_initial.py'', ''backend/shop/migrations/0001_initial.pyc'']"
  by (simp add: fs_defs example_world_def)

lemma no_dir_matches_example: "no_dir_matches example_world"
  by (simp add: no_dir_matches_def migration_files_example)
     (simp add: isfile_def example_world_def)

lemma example_facts:
  "all_running example_world" "resolvable example_world ''db''"
  "resolvable example_world ''backend''"
  "probed (running example_world) (services example_world) = [''db'', ''backend'']"
  by (simp_all add: all_running_def running_def resolvable_def example_world_def)

lemma example_fields:
  "DB_USER example_world = Some ''shop''" "DB_NAME example_world = Some ''shopdb''"
  "exec_result example_world c cmd = (0, ''PGDMP'')" "trace example_world = []"
  "files example_world =
     [(''db.dump'', ''old''), (''backend/shop/migrations/__init__.py'', []),
      (''backend/shop/migrations/0001_initial.py'', ''m1''),
      (''backend/shop/migrations/0001_initial.pyc'', ''c1''),
      (''backend/shop/models.py'', ''src'')]"
  by (simp_all add: example_world_def)

lemma pre_dispatch_example:
  "pre_dispatch example_world =
     example_world
       \<lparr>files := [(''db.dump'', ''old''), (''backend/shop/migrations/__init__.py'', []),
                  (''backend/shop/models.py'', ''src'')],
        trace := [ContainersGet ''db'', ContainersGet ''backend'',
                  FileRemove ''backend/shop/migrations/0001_initial.py'',
                  FileRemove ''backend/shop/migrations/0001_initial.pyc'']\<rparr>"
  by (simp add: pre_dispatch_def migration_files_example example_facts keep_dir_def
      parent_dir_def)
     (simp add: example_world_def)

lemma migration_files_stopped:
  "migration_files stopped_world =
     [''backend/shop/migrations/0001_initial.py'', ''backend/shop/migrations/0001_initial.pyc'']"
  by (simp add: fs_defs stopped_world_def example_world_def)

lemma no_dir_matches_stopped: "no_dir_matches stopped_world"
  by (simp add: no_dir_matches_def migration_files_stopped)
     (simp add: isfile_def stopped_world_def example_world_def)

lemma stopped_facts:
  "\<not> all_running stopped_world"
  "probed (running stopped_world) (services stopped_world) = [''db'', ''backend'']"
  by (simp_all add: all_running_def running_def stopped_world_def example_world_def)

lemma pre_dispatch_stopped:
  "pre_dispatch stopped_world =
     stopped_world
       \<lparr>files := [(''db.dump'', ''old''), (''backend/shop/migrations/__init__.py'', []),
                  (''backend/shop/models.py'', ''src'')],
        trace := [ContainersGet ''db'', ContainersGet ''backend'',
                  FileRemove ''backend/shop/migrations/0001_initial.py'',
                  FileRemove ''backend/shop/migrations/0001_initial.pyc'']\<rparr>"
  by (simp add: pre_dispatch_def migration_files_stopped stopped_facts keep_dir_def
      parent_dir_def)
     (simp add: stopped_world_def example_world_def)

lemma failing_facts:
  "resolvable failing_world ''db''" "resolvable failing_world ''backend''"
  "exec_result failing_world c cmd = (1, ''error'')"
  "map_of (files failing_world) ''db.dump'' = Some ''old''"
  "trace failing_world = []"
  by (simp_all add: resolvable_def failing_world_def example_world_def)

lemma failing_fields:
  "DB_USER failing_world = Some ''shop''" "DB_NAME failing_world = Some ''shopdb''"
  by (simp_all add: failing_world_def example_world_def)

lemma migration_files_failing:
  "migration_files failing_world = migration_files example_world"
  by (simp add: migration_files_def glob_migrations_def entries_def failing_world_def)

lemma failing_dispatch_facts:
  "all_running failing_world" "no_dir_matches failing_world"
  "files (pre_dispatch failing_world) =
     [(''db.dump'', ''old''), (''backend/shop/migrations/__init__.py'', []),
      (''backend/shop/models.py'', ''src'')]"
  by (simp_all add: all_running_def running_def no_dir_matches_def pre_dispatch_def
      migration_files_failing migration_files_example)
     (simp_all add: running_def isfile_def failing_world_def example_world_def)

lemma undeclared_facts:
  "\<not> resolvable undeclared_db_world ''db''" "isfile undeclared_db_world ''db.dump''"
  by (simp_all add: resolvable_def isfile_def undeclared_db_world_def example_world_def)

lemma can_open_example:
  "can_open example_world ''db.dump''" "can_open example_world ''custom.dump''"
  "can_open (pre_dispatch example_world) ''db.dump''"
  "can_open (pre_dispatch example_world) ''custom.dump''"
  "open_error example_world [] = Some FileNotFoundError"
  "open_error example_world ''nodir/out.dump'' = Some FileNotFoundError"
  "open_error (pre_dispatch example_world) ''nodir/out.dump'' = Some FileNotFoundError"
  by (simp_all add: pre_dispatch_example)
     (simp_all add: can_open_def open_error_def isfile_def isdir_def entries_def basename_def
      parent_dir_def example_world_def)

lemma migration_files_directory:
  "migration_files directory_world =
     [''backend/shop/migrations/pkg.py'', ''backend/shop/migrations/0001_initial.py'',
      ''backend/shop/migrations/0001_initial.pyc'']"
  "migration_files stopped_directory_world = migration_files directory_world"
  by (simp_all add: fs_defs stopped_directory_world_def directory_world_def example_world_def)

lemma delete_migrations_directory:
  "delete_migrations (directory_world\<lparr>trace := t\<rparr>)
     = (Inl IsADirectoryError, directory_world\<lparr>trace := t\<rparr>)"
  "delete_migrations (stopped_directory_world\<lparr>trace := t\<rparr>)
     = (Inl IsADirectoryError, stopped_directory_world\<lparr>trace := t\<rparr>)"
  by (simp_all add: delete_migrations_def migration_files_directory seq_def bnd_def
      os_remove_def)
     (simp_all add: isfile_def isdir_def entries_def stopped_directory_world_def
      directory_world_def example_world_def)

lemma main_directory:
  "main argv directory_world =
     (Inl IsADirectoryError,
      directory_world\<lparr>trace := [ContainersGet ''db'', ContainersGet ''backend'']\<rparr>)"
proof -
  have "probed (running directory_world) (services directory_world) = [''db'', ''backend'']"
    "trace directory_world = []"
    by (simp_all add: running_def directory_world_def example_world_def)
  then show ?thesis
    by (simp add: main_def bnd_def seq_def are_containers_running_eq
        delete_migrations_directory)
qed

lemma main_stopped_directory:
  "main argv stopped_directory_world =
     (Inl IsADirectoryError,
      stopped_directory_world\<lparr>trace := [ContainersGet ''db'', ContainersGet ''backend'']\<rparr>)"
proof -
  have "probed (running stopped_directory_world) (services stopped_directory_world)
          = [''db'', ''backend'']"
    "trace stopped_directory_world = []"
    by (simp_all add: running_def stopped_directory_world_def directory_world_def
        example_world_def)
  then show ?thesis
    by (simp add: main_def bnd_def seq_def are_containers_running_eq
        delete_migrations_directory)
qed

lemma migration_files_odd_name:
  "migration_files odd_name_world =
     [''backend/shop/migrations/0001_initial.py'', ''backend/shop/migrations/0001_initial.pyc'']"
  by (simp add: fs_defs odd_name_world_def example_world_def)

lemma odd_name_facts:
  "no_dir_matches odd_name_world" "resolvable odd_name_world ''db''"
  "resolvable odd_name_world ''backend''" "all_running odd_name_world"
  "matches_migration ''.py'' ''backend/shop/migrations/my__init__.py''"
  "\<not> bootstrap_file ''backend/shop/migrations/my__init__.py''"
  "isfile odd_name_world ''backend/shop/migrations/my__init__.py''"
  "isfile (pre_dispatch odd_name_world) ''backend/shop/migrations/my__init__.py''"
  by (simp_all add: no_dir_matches_def migration_files_odd_name pre_dispatch_def
      resolvable_def all_running_def running_def matches_migration_def ends_with_def
      bootstrap_file_def basename_def)
     (simp_all add: running_def isfile_def odd_name_world_def example_world_def)

section \<open>The properties\<close>

subsection \<open>Commands the dispatcher does not know\<close>

text \<open>
  Claim C1, as the script has it. For a command name outside the recognized set, and
  when no directory matches the two migration patterns, the dispatcher first does what
  it does on every invocation (it looks up the status of the declared services and
  removes the selected migration files, see C8). Then, when all declared services are
  running, it prints the "not found" message followed by the usage catalogue; when they
  are not, it prints the "run up first" message instead. It does nothing else: nothing
  is stopped, started, executed or copied, no subprocess is run and no file is written.
\<close>

theorem unrecognized_command:
  assumes "cmd \<notin> set recognized" and "no_dir_matches w"
  shows "main (prog # cmd # args) w =
     (Inr (), (pre_dispatch w)\<lparr>trace := trace (pre_dispatch w) @
        (if all_running w then Print (not_found cmd) # map Print usage_lines
         else [Print (run_up_first cmd)])\<rparr>)"
  using assms
  by (auto simp add: main_dispatch recognized_def print_def emit_def seq_def bnd_def
      print_usage_eq)

theorem unrecognized_command_witness:
  "''frobnicate'' \<notin> set recognized \<and> no_dir_matches example_world
   \<and> main [''containers.py'', ''frobnicate''] example_world =
       (Inr (),
        example_world
          \<lparr>files := [(''db.dump'', ''old''), (''backend/shop/migrations/__init__.py'', []),
                     (''backend/shop/models.py'', ''src'')],
           trace := [ContainersGet ''db'', ContainersGet ''backend'',
                     FileRemove ''backend/shop/migrations/0001_initial.py'',
                     FileRemove ''backend/shop/migrations/0001_initial.pyc'',
                     Print ''Command frobnicate not found. Refer to the usage manual:'']
                    @ map Print usage_lines\<rparr>)"
  using unrecognized_command [of "''frobnicate''" example_world "''containers.py''" "[]"]
  by (simp add: recognized_def example_facts no_dir_matches_example pre_dispatch_example
      not_found_def)

text \<open>
  The claim as the specification words it (always the "not found" message, and no side
  effect at all) fails when a service is stopped and generated migration files exist:
  the runtime is queried, two files are removed, and the message is "run up first". It
  also fails when a directory matches a migration pattern: \<^verbatim>\<open>os.remove\<close> raises on it
  and no message is printed at all.
\<close>

theorem not_found_message_counterexample:
  \<open>''frobnicate'' \<notin> set recognized
   \<and> main [''containers.py'', ''frobnicate''] stopped_world =
       (Inr (),
        stopped_world
          \<lparr>files := [(''db.dump'', ''old''), (''backend/shop/migrations/__init__.py'', []),
                     (''backend/shop/models.py'', ''src'')],
           trace := [ContainersGet ''db'', ContainersGet ''backend'',
                     FileRemove ''backend/shop/migrations/0001_initial.py'',
                     FileRemove ''backend/shop/migrations/0001_initial.pyc'',
                     Print ''Run "python containers.py up" before running frobnicate!'']\<rparr>)
   \<and> main [''containers.py'', ''frobnicate''] directory_world =
       (Inl IsADirectoryError,
        directory_world\<lparr>trace := [ContainersGet ''db'', ContainersGet ''backend'']\<rparr>)\<close>
  by (simp add: main_dispatch recognized_def stopped_facts no_dir_matches_stopped
      pre_dispatch_stopped run_up_first_def print_def emit_def main_directory)

subsection \<open>Dumping the database\<close>

text \<open>
  Claim C2, as the script has it. The export command is \<^verbatim>\<open>pg_dump -Fc -U\<close> with the
  database user and name, run in the db container, which must resolve. When it exits
  with status 0 and the target file can be opened for writing, \<^verbatim>\<open>dump_db\<close> returns
  \<^verbatim>\<open>True\<close> and the exported bytes are the contents of the target, which is \<^verbatim>\<open>db.dump\<close>
  without a filename argument and the given file with one; no other file is touched.
  When it exits with another status, \<^verbatim>\<open>dump_db\<close> returns \<^verbatim>\<open>False\<close> and no file is created
  or written. The dispatcher, when all services run and no directory matches the
  migration patterns, does exactly that in the world it dispatches in: \<^verbatim>\<open>dump\<close> alone
  writes \<^verbatim>\<open>db.dump\<close>, \<^verbatim>\<open>dump f\<close> writes \<^verbatim>\<open>f\<close>, and a failed export leaves the files alone.
\<close>

theorem dump_writes_to_filename:
  "let cmd = ''pg_dump -Fc -U '' @ fmt (DB_USER w) @ '' '' @ fmt (DB_NAME w);
       code = fst (exec_result w ''db'' cmd);
       d = snd (exec_result w ''db'' cmd);
       written = (\<lambda>t. [ContainersGet ''db'', PrintCR ''Dumping db...'', ExecRun ''db'' cmd,
                       Print ''Db dumped    '', FileCreate t,
                       PrintCR (''Writing dump to '' @ t @ ''...''), FileWrite t d,
                       Print (''Dump written to '' @ t @ ''   '')]);
       failed = [ContainersGet ''db'', PrintCR ''Dumping db...'', ExecRun ''db'' cmd,
                 Print ''Error while dumping''];
       pw = pre_dispatch w
   in
     (resolvable w ''db'' \<and> code = 0 \<and> can_open w ''db.dump'' \<longrightarrow>
        dump_db None w =
          (Inr True, w\<lparr>files := AList.update ''db.dump'' d (files w),
                        trace := trace w @ written ''db.dump''\<rparr>))
   \<and> (resolvable w ''db'' \<and> code = 0 \<and> can_open w f \<longrightarrow>
        dump_db (Some f) w =
          (Inr True, w\<lparr>files := AList.update f d (files w), trace := trace w @ written f\<rparr>))
   \<and> (resolvable w ''db'' \<and> code \<noteq> 0 \<longrightarrow>
        dump_db arg w = (Inr False, w\<lparr>trace := trace w @ failed\<rparr>))
   \<and> (all_running w \<and> no_dir_matches w \<and> resolvable w ''db'' \<and> code = 0
        \<and> can_open pw ''db.dump'' \<longrightarrow>
        main [prog, ''dump''] w =
          (Inr (), pw\<lparr>files := AList.update ''db.dump'' d (files pw),
                      trace := trace pw @ written ''db.dump''\<rparr>))
   \<and> (all_running w \<and> no_dir_matches w \<and> resolvable w ''db'' \<and> code = 0
        \<and> can_open pw f \<longrightarrow>
        main (prog # ''dump'' # f # rest) w =
          (Inr (), pw\<lparr>files := AList.update f d (files pw), trace := trace pw @ written f\<rparr>))
   \<and> (all_running w \<and> no_dir_matches w \<and> resolvable w ''db'' \<and> code \<noteq> 0 \<longrightarrow>
        main [prog, ''dump''] w = (Inr (), pw\<lparr>trace := trace pw @ failed\<rparr>)
        \<and> main (prog # ''dump'' # f # rest) w = (Inr (), pw\<lparr>trace := trace pw @ failed\<rparr>))"
proof -
  define cmd where "cmd = ''pg_dump -Fc -U '' @ fmt (DB_USER w) @ '' '' @ fmt (DB_NAME w)"
  have cmd: "dump_cmd w = cmd" by (simp add: dump_cmd_def cmd_def)
  obtain code d where r: "exec_result w ''db'' cmd = (code, d)"
    by (cases "exec_result w ''db'' cmd")
  have ok: "dump_db a v =
      (Inr True, v\<lparr>files := AList.update (case a of None \<Rightarrow> ''db.dump'' | Some f \<Rightarrow> f) d (files v),
         trace := trace v @
           [ContainersGet ''db'', PrintCR ''Dumping db...'', ExecRun ''db'' cmd,
            Print ''Db dumped    '', FileCreate (case a of None \<Rightarrow> ''db.dump'' | Some f \<Rightarrow> f),
            PrintCR (''Writing dump to '' @ (case a of None \<Rightarrow> ''db.dump'' | Some f \<Rightarrow> f) @ ''...''),
            FileWrite (case a of None \<Rightarrow> ''db.dump'' | Some f \<Rightarrow> f) d,
            Print (''Dump written to '' @ (case a of None \<Rightarrow> ''db.dump'' | Some f \<Rightarrow> f) @ ''   '')]\<rparr>)"
    if "resolvable v ''db''" "exec_result v ''db'' (dump_cmd v) = (0, d)" "dump_cmd v = cmd"
      "can_open v (case a of None \<Rightarrow> ''db.dump'' | Some f \<Rightarrow> f)" for a v
    using dump_db_ok [OF that(1) that(2) that(4)] that(3) by (simp add: Let_def)
  have bad: "dump_db a v =
      (Inr False, v\<lparr>trace := trace v @ [ContainersGet ''db'', PrintCR ''Dumping db...'',
          ExecRun ''db'' cmd, Print ''Error while dumping'']\<rparr>)"
    if "resolvable v ''db''" "fst (exec_result v ''db'' (dump_cmd v)) \<noteq> 0" "dump_cmd v = cmd"
    for a v
    using dump_db_fail [OF that(1) that(2)] that(3) by simp
  have pw: "dump_cmd (pre_dispatch w) = cmd" by (simp add: cmd)
  show ?thesis
    unfolding Let_def cmd_def [symmetric]
    using r
    by (auto simp add: main_dump discard_def bnd_def ret_def ok bad cmd pw)
qed

theorem dump_writes_to_filename_witness:
  "all_running example_world \<and> no_dir_matches example_world
   \<and> resolvable example_world ''db''
   \<and> exec_result example_world ''db'' ''pg_dump -Fc -U shop shopdb'' = (0, ''PGDMP'')
   \<and> can_open (pre_dispatch example_world) ''db.dump''
   \<and> can_open (pre_dispatch example_world) ''custom.dump''
   \<and> fst (main [''containers.py'', ''dump''] example_world) = Inr ()
   \<and> files (snd (main [''containers.py'', ''dump''] example_world)) =
       [(''db.dump'', ''PGDMP''), (''backend/shop/migrations/__init__.py'', []),
        (''backend/shop/models.py'', ''src'')]
   \<and> files (snd (main [''containers.py'', ''dump'', ''custom.dump''] example_world)) =
       [(''db.dump'', ''old''), (''backend/shop/migrations/__init__.py'', []),
        (''backend/shop/models.py'', ''src''), (''custom.dump'', ''PGDMP'')]
   \<and> dump_db None example_world =
       (Inr True,
        example_world
          \<lparr>files := [(''db.dump'', ''PGDMP''), (''backend/shop/migrations/__init__.py'', []),
                     (''backend/shop/migrations/0001_initial.py'', ''m1''),
                     (''backend/shop/migrations/0001_initial.pyc'', ''c1''),
                     (''backend/shop/models.py'', ''src'')],
           trace := [ContainersGet ''db'', PrintCR ''Dumping db...'',
                     ExecRun ''db'' ''pg_dump -Fc -U shop shopdb'', Print ''Db dumped    '',
                     FileCreate ''db.dump'', PrintCR ''Writing dump to db.dump...'',
                     FileWrite ''db.dump'' ''PGDMP'', Print ''Dump written to db.dump   '']\<rparr>)
   \<and> all_running failing_world \<and> no_dir_matches failing_world
   \<and> resolvable failing_world ''db''
   \<and> fst (exec_result failing_world ''db'' ''pg_dump -Fc -U shop shopdb'') \<noteq> 0
   \<and> fst (main [''containers.py'', ''dump''] failing_world) = Inr ()
   \<and> files (snd (main [''containers.py'', ''dump''] failing_world)) =
       [(''db.dump'', ''old''), (''backend/shop/migrations/__init__.py'', []),
        (''backend/shop/models.py'', ''src'')]"
  using dump_writes_to_filename [of example_world "''custom.dump''" None "''containers.py''" "[]"]
    dump_writes_to_filename [of failing_world "''custom.dump''" None "''containers.py''" "[]"]
  by (simp add: Let_def fmt_def example_facts no_dir_matches_example failing_facts
      failing_dispatch_facts can_open_example example_fields failing_fields)
     (simp add: pre_dispatch_example example_fields)

text \<open>
  The claim as the specification words it (with a filename argument the bytes are written
  to that file) fails for a file that cannot be opened: for the empty name, and for a
  name in a directory that does not exist, the export is run, \<^verbatim>\<open>open\<close> raises, and
  nothing is written.
\<close>

theorem dump_unwritable_counterexample:
  "dump_db (Some []) example_world =
     (Inl FileNotFoundError,
      example_world
        \<lparr>trace := [ContainersGet ''db'', PrintCR ''Dumping db...'',
                   ExecRun ''db'' ''pg_dump -Fc -U shop shopdb'', Print ''Db dumped    '']\<rparr>)
   \<and> dump_db (Some ''nodir/out.dump'') example_world =
     (Inl FileNotFoundError,
      example_world
        \<lparr>trace := [ContainersGet ''db'', PrintCR ''Dumping db...'',
                   ExecRun ''db'' ''pg_dump -Fc -U shop shopdb'', Print ''Db dumped    '']\<rparr>)
   \<and> fst (main [''containers.py'', ''dump'', ''nodir/out.dump''] example_world)
       = Inl FileNotFoundError
   \<and> files (snd (main [''containers.py'', ''dump'', ''nodir/out.dump''] example_world))
       = [(''db.dump'', ''old''), (''backend/shop/migrations/__init__.py'', []),
          (''backend/shop/models.py'', ''src'')]"
proof -
  have c: "dump_cmd example_world = ''pg_dump -Fc -U shop shopdb''"
    "exec_result example_world c cmd = (0, ''PGDMP'')" for c cmd
    by (simp_all add: dump_cmd_def fmt_def example_world_def)
  show ?thesis
    by (simp add: main_dump example_facts no_dir_matches_example discard_def bnd_def
        dump_db_cannot_open can_open_example c example_fields)
       (simp add: pre_dispatch_example)
qed

subsection \<open>Restoring the database\<close>

text \<open>
  Claim C3. For a filename that does not exist on the local filesystem, \<^verbatim>\<open>restore_db\<close>
  returns \<^verbatim>\<open>False\<close> and the only thing it does is print that the file does not exist:
  the runtime is never called, so nothing is stopped, copied, executed or started.
\<close>

theorem restore_db_missing_file:
  \<open>\<not> isfile w f \<Longrightarrow>
   restore_db f w =
     (Inr False, w\<lparr>trace := trace w @ [Print (''File "'' @ f @ ''" doesn't exists!'')]\<rparr>)
   \<and> filter is_runtime_call (new_events w (snd (restore_db f w))) = []\<close>
  by (simp add: restore_db_def prims)

theorem restore_db_missing_file_witness:
  \<open>\<not> isfile example_world ''missing.dump''
   \<and> restore_db ''missing.dump'' example_world =
       (Inr False, example_world\<lparr>trace := [Print ''File "missing.dump" doesn't exists!'']\<rparr>)\<close>
  using restore_db_missing_file [of example_world "''missing.dump''"]
  by (simp add: isfile_def example_world_def)



subsection \<open>Commands that need the stack running\<close>

text \<open>
  Claim C5, as the script has it. For each of the commands \<^verbatim>\<open>shell\<close>, \<^verbatim>\<open>down\<close>, \<^verbatim>\<open>dump\<close>,
  \<^verbatim>\<open>restore\<close>, \<^verbatim>\<open>resetdb\<close>, \<^verbatim>\<open>resetdjango\<close> and \<^verbatim>\<open>manage\<close>: when not all declared
  services are running and no directory matches the two migration patterns, the
  dispatcher prints the "run up first" message and that is the last thing it does; the
  command's action is not performed.
\<close>

theorem stack_commands_need_running_stack:
  assumes "cmd \<in> set stack_dependent" and "\<not> all_running w" and "no_dir_matches w"
  shows "main (prog # cmd # args) w =
     (Inr (), (pre_dispatch w)\<lparr>trace := trace (pre_dispatch w) @ [Print (run_up_first cmd)]\<rparr>)"
  using assms by (auto simp add: main_dispatch stack_dependent_def print_def emit_def)

theorem stack_commands_need_running_stack_witness:
  \<open>''dump'' \<in> set stack_dependent \<and> \<not> all_running stopped_world
   \<and> no_dir_matches stopped_world
   \<and> main [''containers.py'', ''dump''] stopped_world =
       (Inr (),
        stopped_world
          \<lparr>files := [(''db.dump'', ''old''), (''backend/shop/migrations/__init__.py'', []),
                     (''backend/shop/models.py'', ''src'')],
           trace := [ContainersGet ''db'', ContainersGet ''backend'',
                     FileRemove ''backend/shop/migrations/0001_initial.py'',
                     FileRemove ''backend/shop/migrations/0001_initial.pyc'',
                     Print ''Run "python containers.py up" before running dump!'']\<rparr>)\<close>
  using stack_commands_need_running_stack [of "''dump''" stopped_world "''containers.py''" "[]"]
  by (simp add: stack_dependent_def stopped_facts no_dir_matches_stopped pre_dispatch_stopped
      run_up_first_def)

text \<open>
  The claim as the specification words it fails when a directory matches a migration
  pattern: with the backend stopped, \<^verbatim>\<open>dump\<close> ends in the \<^verbatim>\<open>IsADirectoryError\<close> that
  \<^verbatim>\<open>os.remove\<close> raises, before the check of the stack is acted on, and the message is
  never printed.
\<close>

theorem run_up_first_counterexample:
  "''dump'' \<in> set stack_dependent
   \<and> list_ex (\<lambda>n. containers stopped_directory_world n \<noteq> Some ''running'')
        (services stopped_directory_world)
   \<and> main [''containers.py'', ''dump''] stopped_directory_world =
       (Inl IsADirectoryError,
        stopped_directory_world\<lparr>trace := [ContainersGet ''db'', ContainersGet ''backend'']\<rparr>)"
  by (simp add: main_stopped_directory stack_dependent_def)
     (simp add: stopped_directory_world_def directory_world_def example_world_def)

subsection \<open>Resetting the database and the migrations\<close>

text \<open>
  Claim C7. On a stack whose db and backend containers resolve, \<^verbatim>\<open>reset_db\<close> always
  makes the same calls to the runtime, in the same order: stop the backend, run the drop
  tool, run the create tool, start the backend. The drop tool's exit status changes none
  of them; it decides the result, which is \<^verbatim>\<open>False\<close> exactly when that status is not 0.
\<close>

theorem reset_db_continues_after_failed_drop:
  assumes "resolvable w ''db''" and "resolvable w ''backend''"
  shows "fst (reset_db w) = Inr (fst (exec_result w ''db'' (drop_cmd w)) = 0)
    \<and> filter is_runtime_call (new_events w (snd (reset_db w))) =
        [ContainersGet ''db'', ContainersGet ''backend'', ContainerStop ''backend'',
         ExecRun ''db'' (drop_cmd w),
         ContainersGet ''db'', ExecRun ''db'' (create_cmd w),
         ContainersGet ''backend'', ContainerStart ''backend'']
    \<and> containers (snd (reset_db w)) ''backend'' = Some ''running''"
  by (simp add: reset_db_eq [OF assms])

theorem reset_db_continues_after_failed_drop_witness:
  "resolvable failing_world ''db'' \<and> resolvable failing_world ''backend''
   \<and> fst (exec_result failing_world ''db'' (drop_cmd failing_world)) = 1
   \<and> fst (reset_db failing_world) = Inr False
   \<and> filter is_runtime_call (trace (snd (reset_db failing_world))) =
        [ContainersGet ''db'', ContainersGet ''backend'', ContainerStop ''backend'',
         ExecRun ''db'' ''dropdb -U shop shopdb'',
         ContainersGet ''db'', ExecRun ''db'' ''createdb -U shop shopdb'',
         ContainersGet ''backend'', ContainerStart ''backend'']"
  using reset_db_continues_after_failed_drop [of failing_world]
  by (simp add: failing_facts new_events_def)
     (simp add: failing_world_def example_world_def drop_cmd_def create_cmd_def fmt_def)

text \<open>
  Claim C6, as the script has it. On a stack whose db and backend containers resolve,
  and when no directory matches the two migration patterns, \<^verbatim>\<open>reset_django\<close> returns
  normally and what it does is, in this order: remove the selected migration files
  (every existing \<^verbatim>\<open>.py\<close> file of a migrations directory whose path does not contain the
  text \<^verbatim>\<open>__init__.py\<close>, every existing \<^verbatim>\<open>.pyc\<close> file of a migrations directory, and
  nothing else), then everything \<^verbatim>\<open>reset_db\<close> does (stop the backend, drop the database,
  create it, start the backend), then run \<^verbatim>\<open>makemigrations\<close> and \<^verbatim>\<open>migrate\<close> in the
  backend container.
\<close>

theorem reset_django_steps:
  assumes "resolvable w ''db''" and "resolvable w ''backend''" and "no_dir_matches w"
  shows "fst (reset_django w) = Inr ()
    \<and> new_events w (snd (reset_django w)) =
        map FileRemove (migration_files w)
        @ new_events w (snd (reset_db w))
        @ [Subprocess ''docker exec -it backend /app/manage.py makemigrations'',
           Subprocess ''docker exec -it backend /app/manage.py migrate'']
    \<and> set (migration_files w) = {p. isfile w p \<and> generated_migration p}
    \<and> filter is_runtime_call (new_events w (snd (reset_db w))) =
        [ContainersGet ''db'', ContainersGet ''backend'', ContainerStop ''backend'',
         ExecRun ''db'' (drop_cmd w),
         ContainersGet ''db'', ExecRun ''db'' (create_cmd w),
         ContainersGet ''backend'', ContainerStart ''backend'']"
  using assms
  by (simp add: reset_django_def seq_def bnd_def delete_migrations_eq reset_db_eq
      django_migrate_def subprocess_run_def emit_def set_migration_files new_events_def)

theorem reset_django_steps_witness:
  "resolvable example_world ''db'' \<and> resolvable example_world ''backend''
   \<and> no_dir_matches example_world
   \<and> fst (reset_django example_world) = Inr ()
   \<and> filter (\<lambda>e. \<not> is_print e) (trace (snd (reset_django example_world))) =
       [FileRemove ''backend/shop/migrations/0001_initial.py'',
        FileRemove ''backend/shop/migrations/0001_initial.pyc'',
        ContainersGet ''db'', ContainersGet ''backend'', ContainerStop ''backend'',
        ExecRun ''db'' ''dropdb -U shop shopdb'',
        ContainersGet ''db'', ExecRun ''db'' ''createdb -U shop shopdb'',
        ContainersGet ''backend'', ContainerStart ''backend'',
        Subprocess ''docker exec -it backend /app/manage.py makemigrations'',
        Subprocess ''docker exec -it backend /app/manage.py migrate'']"
  using reset_django_steps [of example_world]
  by (simp add: example_facts no_dir_matches_example new_events_def migration_files_example
      reset_db_eq)
     (simp add: example_world_def drop_cmd_def create_cmd_def fmt_def)

text \<open>
  The claim as the specification words it fails in two ways. A migration that is not
  the bootstrap file but has \<^verbatim>\<open>__init__.py\<close> in its name is not removed. And when a
  directory matches a migration pattern, \<^verbatim>\<open>os.remove\<close> raises on it: \<^verbatim>\<open>reset_django\<close>
  ends there, the database is not reset and no migration command is issued.
\<close>

theorem reset_django_counterexample:
  "matches_migration ''.py'' ''backend/shop/migrations/my__init__.py''
   \<and> \<not> bootstrap_file ''backend/shop/migrations/my__init__.py''
   \<and> isfile odd_name_world ''backend/shop/migrations/my__init__.py''
   \<and> fst (reset_django odd_name_world) = Inr ()
   \<and> isfile (snd (reset_django odd_name_world)) ''backend/shop/migrations/my__init__.py''
   \<and> reset_django directory_world = (Inl IsADirectoryError, directory_world)"
proof -
  have 1: "isfile (snd (reset_django odd_name_world)) ''backend/shop/migrations/my__init__.py''"
    "fst (reset_django odd_name_world) = Inr ()"
    by (simp_all add: reset_django_def seq_def bnd_def delete_migrations_eq reset_db_eq
        django_migrate_def subprocess_run_def emit_def odd_name_facts
        migration_files_odd_name isfile_def)
       (simp_all add: odd_name_world_def example_world_def)
  have 2: "reset_django directory_world = (Inl IsADirectoryError, directory_world)"
    using delete_migrations_directory(1) [of "trace directory_world"]
    by (simp add: reset_django_def seq_def bnd_def)
  from 1 2 show ?thesis by (simp add: odd_name_facts)
qed

subsection \<open>What every invocation does first\<close>

text \<open>
  Claim C8, as the script has it. Whatever the command line, when no directory matches
  the two migration patterns, what the dispatcher adds to the trace begins with the
  status lookups and then the removal of the selected migration files, before anything
  the command itself does. The files removed are exactly the existing \<^verbatim>\<open>.py\<close> files of
  a migrations directory whose path does not contain the text \<^verbatim>\<open>__init__.py\<close>, and the
  existing \<^verbatim>\<open>.pyc\<close> files of a migrations directory, each once. This includes the
  invocation without arguments and \<^verbatim>\<open>help\<close>, \<^verbatim>\<open>-h\<close> and \<^verbatim>\<open>--help\<close>, which then only print
  the usage catalogue, in a world that has none of these files left.
\<close>

theorem migrations_deleted_before_dispatch:
  assumes "no_dir_matches w"
  shows "(\<exists>evs. trace (snd (main argv w)) =
       trace w @ map ContainersGet (probed (running w) (services w))
       @ map FileRemove (migration_files w) @ evs)
   \<and> set (migration_files w) = {p. isfile w p \<and> generated_migration p}
   \<and> distinct (migration_files w)
   \<and> main [prog] w =
       (Inr (), (pre_dispatch w)\<lparr>trace := trace (pre_dispatch w) @ map Print usage_lines\<rparr>)
   \<and> main (prog # ''help'' # args) w =
       (Inr (), (pre_dispatch w)\<lparr>trace := trace (pre_dispatch w) @ map Print usage_lines\<rparr>)
   \<and> main (prog # ''-h'' # args) w =
       (Inr (), (pre_dispatch w)\<lparr>trace := trace (pre_dispatch w) @ map Print usage_lines\<rparr>)
   \<and> main (prog # ''--help'' # args) w =
       (Inr (), (pre_dispatch w)\<lparr>trace := trace (pre_dispatch w) @ map Print usage_lines\<rparr>)
   \<and> files (pre_dispatch w) = filter (\<lambda>kv. \<not> generated_migration (fst kv)) (files w)"
proof -
  obtain evs where "trace (snd (main argv w)) = trace (pre_dispatch w) @ evs"
    using main_extends_pre_dispatch [OF assms, of argv] by (auto simp: prefix_def)
  then have "\<exists>evs. trace (snd (main argv w)) =
       trace w @ map ContainersGet (probed (running w) (services w))
       @ map FileRemove (migration_files w) @ evs"
    by (simp add: pre_dispatch_def)
  then show ?thesis
    using assms
    by (simp add: set_migration_files distinct_migration_files main_dispatch print_usage_eq
        files_pre_dispatch)
qed

theorem migrations_deleted_before_dispatch_witness:
  "no_dir_matches example_world
   \<and> main [''containers.py'', ''help''] example_world =
     (Inr (),
      example_world
        \<lparr>files := [(''db.dump'', ''old''), (''backend/shop/migrations/__init__.py'', []),
                   (''backend/shop/models.py'', ''src'')],
         trace := [ContainersGet ''db'', ContainersGet ''backend'',
                   FileRemove ''backend/shop/migrations/0001_initial.py'',
                   FileRemove ''backend/shop/migrations/0001_initial.pyc'']
                  @ map Print usage_lines\<rparr>)"
  using migrations_deleted_before_dispatch
      [of example_world "[]" "''containers.py''" "[]"]
  by (simp add: pre_dispatch_example no_dir_matches_example)

text \<open>
  The claim as the specification words it fails in two ways. A migration that is not
  the bootstrap file but has \<^verbatim>\<open>__init__.py\<close> in its name survives the invocation. And
  when a directory matches a migration pattern, \<^verbatim>\<open>os.remove\<close> raises on it: \<^verbatim>\<open>help\<close> ends
  in \<^verbatim>\<open>IsADirectoryError\<close>, nothing is printed, and the generated migration files that
  the loop had not reached are still there.
\<close>

theorem migrations_deleted_counterexample:
  "matches_migration ''.py'' ''backend/shop/migrations/my__init__.py''
   \<and> \<not> bootstrap_file ''backend/shop/migrations/my__init__.py''
   \<and> isfile odd_name_world ''backend/shop/migrations/my__init__.py''
   \<and> fst (main [''containers.py'', ''help''] odd_name_world) = Inr ()
   \<and> isfile (snd (main [''containers.py'', ''help''] odd_name_world))
        ''backend/shop/migrations/my__init__.py''
   \<and> main [''containers.py'', ''help''] directory_world =
       (Inl IsADirectoryError,
        directory_world\<lparr>trace := [ContainersGet ''db'', ContainersGet ''backend'']\<rparr>)
   \<and> isfile directory_world ''backend/shop/migrations/0001_initial.py''
   \<and> generated_migration ''backend/shop/migrations/0001_initial.py''"
proof -
  have 1: "fst (main [''containers.py'', ''help''] odd_name_world) = Inr ()"
    "isfile (snd (main [''containers.py'', ''help''] odd_name_world))
        ''backend/shop/migrations/my__init__.py''"
    using odd_name_facts(8)
    by (simp_all add: main_dispatch odd_name_facts print_usage_eq isfile_def)
  have 2: "isfile directory_world ''backend/shop/migrations/0001_initial.py''"
    "generated_migration ''backend/shop/migrations/0001_initial.py''"
    by (simp_all add: isfile_def generated_migration_def matches_migration_def ends_with_def
        directory_world_def example_world_def)
  from 1 2 show ?thesis by (simp add: odd_name_facts main_directory)
qed

subsection \<open>Exceptions\<close>

text \<open>
  Claim C9. The claim is that the dispatcher never raises on a wrong number of arguments.
  The script does raise: with all services running, \<^verbatim>\<open>shell\<close> without a container name
  prints "Missing container name!" and then reads \<^verbatim>\<open>sys.argv[2]\<close>, which does not exist.
\<close>

theorem shell_without_name_raises:
  "main [''containers.py'', ''shell''] example_world =
     (Inl IndexError,
      example_world
        \<lparr>files := [(''db.dump'', ''old''), (''backend/shop/migrations/__init__.py'', []),
                   (''backend/shop/models.py'', ''src'')],
         trace := [ContainersGet ''db'', ContainersGet ''backend'',
                   FileRemove ''backend/shop/migrations/0001_initial.py'',
                   FileRemove ''backend/shop/migrations/0001_initial.pyc'',
                   Print ''Missing container name!'']\<rparr>)"
  by (simp add: main_shell_without_name example_facts no_dir_matches_example
      pre_dispatch_example)

text \<open>
  Claim C10. \<^verbatim>\<open>dump_db\<close>, \<^verbatim>\<open>create_db\<close>, \<^verbatim>\<open>reset_db\<close> and \<^verbatim>\<open>restore_db\<close> use what the
  lookup of the db container returns without checking it. When that container does not
  resolve (its service is not declared, or the runtime has no such container), each of
  them raises \<^verbatim>\<open>AttributeError\<close> instead of returning a boolean, and no method of the db
  container has been called; for \<^verbatim>\<open>restore_db\<close> this is when the dump file exists, since
  it returns before the lookup otherwise. When the container resolves, each of them
  returns its boolean (\<^verbatim>\<open>dump_db\<close> when the export failed or its target can be opened).
\<close>

theorem db_container_must_resolve:
  "(\<not> resolvable w ''db'' \<longrightarrow>
      fst (dump_db arg w) = Inl AttributeError
      \<and> filter (on_container ''db'') (new_events w (snd (dump_db arg w))) = []
      \<and> fst (create_db w) = Inl AttributeError
      \<and> filter (on_container ''db'') (new_events w (snd (create_db w))) = []
      \<and> fst (reset_db w) = Inl AttributeError
      \<and> filter (on_container ''db'') (new_events w (snd (reset_db w))) = []
      \<and> (isfile w f \<longrightarrow>
           fst (restore_db f w) = Inl AttributeError
           \<and> filter (on_container ''db'') (new_events w (snd (restore_db f w))) = []))
   \<and> (resolvable w ''db'' \<longrightarrow>
        (fst (exec_result w ''db'' (dump_cmd w)) \<noteq> 0
           \<or> can_open w (case arg of None \<Rightarrow> ''db.dump'' | Some f \<Rightarrow> f) \<longrightarrow>
         fst (dump_db arg w) = Inr (fst (exec_result w ''db'' (dump_cmd w)) = 0))
        \<and> fst (create_db w) = Inr (fst (exec_result w ''db'' (create_cmd w)) = 0)
        \<and> fst (reset_db w) = Inr (fst (exec_result w ''db'' (drop_cmd w)) = 0)
        \<and> fst (restore_db f w) =
             Inr (isfile w f \<and> fst (exec_result w ''db'' (restore_cmd w f)) = 0))"
  using dump_db_unresolved [of w arg] create_db_unresolved [of w] reset_db_unresolved [of w]
    restore_db_unresolved [of w f] db_resolved_returns [of w arg f]
  by blast

theorem db_container_must_resolve_witness:
  "\<not> resolvable undeclared_db_world ''db'' \<and> isfile undeclared_db_world ''db.dump''
   \<and> fst (dump_db None undeclared_db_world) = Inl AttributeError
   \<and> fst (create_db undeclared_db_world) = Inl AttributeError
   \<and> fst (reset_db undeclared_db_world) = Inl AttributeError
   \<and> fst (restore_db ''db.dump'' undeclared_db_world) = Inl AttributeError
   \<and> resolvable example_world ''db''
   \<and> fst (dump_db None example_world) = Inr True
   \<and> fst (restore_db ''db.dump'' example_world) = Inr True"
  using db_container_must_resolve [of undeclared_db_world None "''db.dump''"]
    db_container_must_resolve [of example_world None "''db.dump''"]
  by (simp add: example_facts undeclared_facts can_open_example)
     (simp add: example_world_def isfile_def)

end
